theory Spec2Isabelle
  imports Main "HOL-Library.Word"
begin

section \<open>JavaScript strings\<close>

text \<open>
  A JavaScript string is a sequence of UTF-16 code units. String literals of the source
  are all ASCII and are written through \<open>js\<close>.
\<close>

type_synonym js_string = "16 word list"

definition js :: "string \<Rightarrow> js_string" where
  "js s = map (\<lambda>c. of_nat (of_char c)) s"

text \<open>
  \<open>String.prototype.trim\<close> strips the ECMAScript WhiteSpace and LineTerminator code
  points from both ends. All of them lie in the Basic Multilingual Plane, so the test is
  on single code units.
\<close>

definition is_white_space :: "16 word \<Rightarrow> bool" where
  "is_white_space c \<longleftrightarrow>
     c \<in> {0x0009, 0x000A, 0x000B, 0x000C, 0x000D, 0x0020, 0x00A0, 0x1680,
          0x2028, 0x2029, 0x202F, 0x205F, 0x3000, 0xFEFF}
     \<or> (0x2000 \<le> c \<and> c \<le> 0x200A)"

definition trim :: "js_string \<Rightarrow> js_string" where
  "trim s = rev (dropWhile is_white_space (rev (dropWhile is_white_space s)))"

text \<open>The decimal rendering of a non-negative integer inside a template literal.\<close>

fun decimal :: "nat \<Rightarrow> js_string" where
  "decimal n =
     (if n < 10 then [of_nat (48 + n)]
      else decimal (n div 10) @ [of_nat (48 + n mod 10)])"

declare decimal.simps [simp del]

section \<open>JavaScript values, exceptions and the host\<close>

text \<open>
  The values that \<open>response.json()\<close> can produce, and \<open>undefined\<close>, which a property
  read on them can produce. The type \<open>'n\<close> stands for the numbers (IEEE doubles), whose
  content the program never inspects. \<open>JObj\<close> lists the own properties of an object.
\<close>

datatype 'n js_value =
    JUndefined
  | JNull
  | JBool bool
  | JNum 'n
  | JStr js_string
  | JArr "'n js_value list"
  | JObj "(js_string \<times> 'n js_value) list"

datatype js_error = JsError (error_name: js_string) (message: js_string)

text \<open>
  What the program takes from its host environment: whether
  \<open>window.SpeechRecognition || window.webkitSpeechRecognition\<close> exists (line 7), the
  two observations JavaScript makes of a number (its truthiness and its string form),
  and the engine's wording of the TypeError for a property read on \<open>null\<close> or
  \<open>undefined\<close>.
\<close>

record 'n host =
  SpeechRecognition :: bool
  number_is_falsy :: "'n \<Rightarrow> bool"
  number_to_string :: "'n \<Rightarrow> js_string"
  nullish_read_message :: "js_string \<Rightarrow> js_string"

definition TypeError :: "'n host \<Rightarrow> js_string \<Rightarrow> js_error" where
  "TypeError h p = JsError (js ''TypeError'') (nullish_read_message h p)"

text \<open>
  The property read \<open>v.p\<close>, for a property name \<open>p\<close> that no built-in prototype
  defines and that is no index or \<open>length\<close> (the source reads \<open>answer\<close>, \<open>detail\<close>):
  it throws on \<open>null\<close> and \<open>undefined\<close>, finds an own property of an object, and is
  \<open>undefined\<close> everywhere else.
\<close>

fun get :: "'n host \<Rightarrow> 'n js_value \<Rightarrow> js_string \<Rightarrow> js_error + 'n js_value" where
  "get h JUndefined p = Inl (TypeError h p)"
| "get h JNull p = Inl (TypeError h p)"
| "get h (JObj ps) p = Inr (case map_of ps p of None \<Rightarrow> JUndefined | Some v \<Rightarrow> v)"
| "get h v p = Inr JUndefined"

text \<open>\<open>ToBoolean\<close>, as used by \<open>||\<close> and \<open>&&\<close>.\<close>

fun ToBoolean :: "'n host \<Rightarrow> 'n js_value \<Rightarrow> bool" where
  "ToBoolean h JUndefined = False"
| "ToBoolean h JNull = False"
| "ToBoolean h (JBool b) = b"
| "ToBoolean h (JNum n) = (\<not> number_is_falsy h n)"
| "ToBoolean h (JStr s) = (s \<noteq> [])"
| "ToBoolean h (JArr vs) = True"
| "ToBoolean h (JObj ps) = True"

text \<open>
  \<open>ToString\<close>, as applied by \<open>new Error(x)\<close> to its argument: an array is its elements
  joined by commas, with \<open>null\<close> and \<open>undefined\<close> elements left empty; a plain object
  is \<open>[object Object]\<close>.
\<close>

fun join_comma :: "js_string list \<Rightarrow> js_string" where
  "join_comma [] = []"
| "join_comma [s] = s"
| "join_comma (s # t # ss) = s @ js '','' @ join_comma (t # ss)"

fun ToString :: "'n host \<Rightarrow> 'n js_value \<Rightarrow> js_string"
  and element_string :: "'n host \<Rightarrow> 'n js_value \<Rightarrow> js_string" where
  "ToString h JUndefined = js ''undefined''"
| "ToString h JNull = js ''null''"
| "ToString h (JBool b) = (if b then js ''true'' else js ''false'')"
| "ToString h (JNum n) = number_to_string h n"
| "ToString h (JStr s) = s"
| "ToString h (JArr vs) = join_comma (map (element_string h) vs)"
| "ToString h (JObj ps) = js ''[object Object]''"
| "element_string h v =
     (case v of JUndefined \<Rightarrow> [] | JNull \<Rightarrow> [] | _ \<Rightarrow> ToString h v)"

section \<open>Statements that may throw\<close>

text \<open>
  A statement runs on a state and completes normally (\<open>None\<close>) or by throwing
  (\<open>Some e\<close>); in both cases the state it leaves behind is kept.
\<close>

type_synonym 's stmt = "'s \<Rightarrow> js_error option \<times> 's"

definition try_catch_finally ::
    "'s stmt \<Rightarrow> (js_error \<Rightarrow> 's stmt) \<Rightarrow> 's stmt \<Rightarrow> 's stmt" where
  "try_catch_finally body handler finalizer s =
     (let (r1, s1) = body s;
          (r2, s2) = (case r1 of None \<Rightarrow> (None, s1) | Some e \<Rightarrow> handler e s1);
          (r3, s3) = finalizer s2
      in (case r3 of Some e \<Rightarrow> (Some e, s3) | None \<Rightarrow> (r2, s3)))"

section \<open>The network exchange\<close>

text \<open>
  The argument of \<open>fetch\<close>. \<open>body\<close> is the value handed to \<open>JSON.stringify\<close>.
\<close>

record 'n request =
  url :: js_string
  http_method :: js_string
  headers :: "(js_string \<times> js_string) list"
  body :: "'n js_value"

definition API_URL :: js_string where
  "API_URL = js ''http://localhost:8000''"

definition chat_request :: "js_string \<Rightarrow> 'n request" where
  "chat_request q =
     \<lparr>url = API_URL @ js ''/chat'',
      http_method = js ''POST'',
      headers = [(js ''Content-Type'', js ''application/json'')],
      body = JObj [(js ''question'', JStr q)]\<rparr>"

text \<open>
  A response is its status and what \<open>response.json()\<close> settles to: a rejection when the
  body is not JSON, the parsed value otherwise. \<open>fetch\<close> itself settles to a rejection
  (transport failure) or to a response.
\<close>

datatype 'n response = Response (status: nat) (json: "js_error + 'n js_value")

type_synonym 'n fetch_outcome = "js_error + 'n response"

definition ok :: "'n response \<Rightarrow> bool" where
  "ok r \<longleftrightarrow> 200 \<le> status r \<and> status r \<le> 299"

section \<open>The chat view \<open>App\<close>\<close>

text \<open>
  A Turn is \<open>{ text, sender }\<close>. \<open>text\<close> holds whatever JavaScript value was stored
  (the trimmed input, \<open>botResponse.answer\<close>, or the failure message); \<open>sender\<close> is
  a string, as in the source.
\<close>

record 'n turn =
  turn_text :: "'n js_value"
  sender :: js_string

datatype console_arg = ErrorArg js_error | StringArg js_string

datatype recognition_call = Start | Stop

text \<open>
  The four \<open>useState\<close> cells of \<open>App\<close> (lines 18 to 21), followed by what the
  component has done to its host: the \<open>fetch\<close> calls still in flight, the \<open>alert\<close>
  notices shown, the \<open>console.error\<close> lines, the calls made on the \<open>recognition\<close>
  object and whether it is in a session, and the exceptions that escaped a handler.
\<close>

record 'n world =
  messages :: "'n turn list"
  userInput :: js_string
  isLoading :: bool
  isListening :: bool
  requests :: "'n request list"
  alerts :: "js_string list"
  console :: "(js_string \<times> console_arg) list"
  recognition_calls :: "recognition_call list"
  recognition_started :: bool
  uncaught :: "js_error list"

definition initial_world :: "'n world" where
  "initial_world =
     \<lparr>messages = [], userInput = [], isLoading = False, isListening = False,
      requests = [], alerts = [], console = [], recognition_calls = [],
      recognition_started = False, uncaught = []\<rparr>"

definition setMessages :: "('n turn list \<Rightarrow> 'n turn list) \<Rightarrow> 'n world \<Rightarrow> 'n world" where
  "setMessages f w = w\<lparr>messages := f (messages w)\<rparr>"

definition fetch :: "'n request \<Rightarrow> 'n world \<Rightarrow> 'n world" where
  "fetch r w = w\<lparr>requests := requests w @ [r]\<rparr>"

definition console_error :: "js_string \<Rightarrow> console_arg \<Rightarrow> 'n world \<Rightarrow> 'n world" where
  "console_error label arg w = w\<lparr>console := console w @ [(label, arg)]\<rparr>"

subsection \<open>\<open>handleSendMessage\<close> (lines 83 to 117)\<close>

text \<open>
  The function is asynchronous. \<open>handleSendMessage\<close> is its synchronous part, up to the
  \<open>await\<close> of line 95: it runs inside the submit event and leaves the request in
  flight. \<open>!query\<close> holds of the empty string only.
\<close>

definition user_turn :: "js_string \<Rightarrow> 'n turn" where
  "user_turn query = \<lparr>turn_text = JStr query, sender = js ''user''\<rparr>"

definition handleSendMessage :: "'n world stmt" where
  "handleSendMessage w =
     (let query = trim (userInput w) in
      if query = [] then (None, w)
      else
        let userMessage = user_turn query;
            w1 = setMessages (\<lambda>prev. prev @ [userMessage]) w;
            w2 = w1\<lparr>userInput := []\<rparr>;
            w3 = w2\<lparr>isLoading := True\<rparr>
        in (None, fetch (chat_request query) w3))"

text \<open>
  The rest of the function runs when the call has settled, on the state of that moment:
  the \<open>try\<close> block from line 95 on, the \<open>catch\<close> block and the \<open>finally\<close> block.
  The \<open>try\<close> block writes state in its last statement only, so the two suspensions
  inside it (\<open>await fetch\<close>, \<open>await response.json()\<close>) are taken together. Both
  \<open>setMessages\<close> calls pass an updater, which React applies to the current list.
\<close>

definition bot_turn :: "'n js_value \<Rightarrow> 'n turn" where
  "bot_turn v = \<lparr>turn_text = v, sender = js ''bot''\<rparr>"

definition failure_text :: js_string where
  "failure_text = js ''Sorry, something went wrong. Please try again.''"

definition http_error :: "'n response \<Rightarrow> js_error" where
  "http_error r = JsError (js ''Error'') (js ''HTTP error! Status: '' @ decimal (status r))"

definition handleSendMessage_try :: "'n host \<Rightarrow> 'n fetch_outcome \<Rightarrow> 'n world stmt" where
  "handleSendMessage_try h outcome w =
     (case outcome of
        Inl e \<Rightarrow> (Some e, w)
      | Inr response \<Rightarrow>
          if \<not> ok response then (Some (http_error response), w)
          else
            (case json response of
               Inl e \<Rightarrow> (Some e, w)
             | Inr botResponse \<Rightarrow>
                 (case get h botResponse (js ''answer'') of
                    Inl e \<Rightarrow> (Some e, w)
                  | Inr answer \<Rightarrow>
                      (None, setMessages (\<lambda>prev. prev @ [bot_turn answer]) w))))"

definition handleSendMessage_catch :: "js_error \<Rightarrow> 'n world stmt" where
  "handleSendMessage_catch err w =
     (let w1 = console_error (js ''Error sending message:'') (ErrorArg err) w;
          errorMessage = bot_turn (JStr failure_text)
      in (None, setMessages (\<lambda>prev. prev @ [errorMessage]) w1))"

definition handleSendMessage_finally :: "'n world stmt" where
  "handleSendMessage_finally w = (None, w\<lparr>isLoading := False\<rparr>)"

definition handleSendMessage_settled :: "'n host \<Rightarrow> 'n fetch_outcome \<Rightarrow> 'n world stmt" where
  "handleSendMessage_settled h outcome =
     try_catch_finally (handleSendMessage_try h outcome)
       handleSendMessage_catch handleSendMessage_finally"

subsection \<open>The speech bridge (lines 59 to 81 and 119 to 130)\<close>

text \<open>
  \<open>recognition.start()\<close> throws an InvalidStateError when a session is already open;
  \<open>recognition.stop()\<close> never throws. The session closes with the \<open>end\<close> event.
\<close>

definition recognition_start :: "'n world stmt" where
  "recognition_start w =
     (let w1 = w\<lparr>recognition_calls := recognition_calls w @ [Start]\<rparr> in
      if recognition_started w
      then (Some (JsError (js ''InvalidStateError'') (js ''recognition has already started'')), w1)
      else (None, w1\<lparr>recognition_started := True\<rparr>))"

definition recognition_stop :: "'n world stmt" where
  "recognition_stop w = (None, w\<lparr>recognition_calls := recognition_calls w @ [Stop]\<rparr>)"

definition unsupported_notice :: js_string where
  "unsupported_notice = js ''Sorry, your browser doesn't support voice recognition.''"

definition handleToggleListening :: "'n host \<Rightarrow> 'n world stmt" where
  "handleToggleListening h w =
     (if \<not> SpeechRecognition h then (None, w\<lparr>alerts := alerts w @ [unsupported_notice]\<rparr>)
      else
        (case (if isListening w then recognition_stop w else recognition_start w) of
           (Some e, w1) \<Rightarrow> (Some e, w1)
         | (None, w1) \<Rightarrow> (None, w1\<lparr>isListening := \<not> isListening w\<rparr>)))"

text \<open>
  \<open>event.results\<close> is given as the transcripts of the alternatives of each result.
  \<open>event.results[0][0].transcript\<close> throws a TypeError when there is no first result or
  no first alternative.
\<close>

definition onresult :: "'n host \<Rightarrow> js_string list list \<Rightarrow> 'n world stmt" where
  "onresult h results w =
     (case results of
        [] \<Rightarrow> (Some (TypeError h (js ''0'')), w)
      | [] # _ \<Rightarrow> (Some (TypeError h (js ''transcript'')), w)
      | (transcript # _) # _ \<Rightarrow>
          (None, w\<lparr>userInput := transcript, isListening := False\<rparr>))"

definition onerror :: "js_string \<Rightarrow> 'n world stmt" where
  "onerror code w =
     (let w1 = console_error (js ''Speech recognition error:'') (StringArg code) w
      in (None, w1\<lparr>isListening := False\<rparr>))"

definition onend :: "'n world stmt" where
  "onend w = (None, w\<lparr>isListening := False\<rparr>)"

subsection \<open>The render surface and the events (lines 132 to 189)\<close>

text \<open>
  The \<open>disabled\<close> attributes of the text input (line 166), the microphone button
  (line 173) and the submit button (line 182), and the condition under which the
  microphone button is rendered at all (line 168).
\<close>

definition input_disabled :: "'n world \<Rightarrow> bool" where
  "input_disabled w \<longleftrightarrow> isLoading w"

definition mic_rendered :: "'n host \<Rightarrow> bool" where
  "mic_rendered h \<longleftrightarrow> SpeechRecognition h"

definition mic_disabled :: "'n world \<Rightarrow> bool" where
  "mic_disabled w \<longleftrightarrow> isLoading w"

definition send_disabled :: "'n world \<Rightarrow> bool" where
  "send_disabled w \<longleftrightarrow> isLoading w \<or> trim (userInput w) = []"

text \<open>
  What can happen to the component: the user edits the input, clicks the submit button,
  presses Enter in the input, clicks the microphone; the recognition object fires
  \<open>result\<close>, \<open>error\<close> or \<open>end\<close>; the call in flight at a given position settles.
\<close>

datatype 'n event =
    Change js_string
  | ClickSend
  | PressEnter
  | ClickMic
  | RecognitionResult "js_string list list"
  | RecognitionError js_string
  | RecognitionEnd
  | Settled nat "'n fetch_outcome"

text \<open>An exception that leaves a handler is reported by the host; the state stays.\<close>

fun report :: "js_error option \<times> 'n world \<Rightarrow> 'n world" where
  "report (None, w) = w"
| "report (Some e, w) = w\<lparr>uncaught := uncaught w @ [e]\<rparr>"

text \<open>
  \<open>handle\<close> runs the handler that the component has bound to an event. Both ways of
  submitting the form reach \<open>onSubmit\<close> (line 159). The recognition handlers exist only
  when the recognition object does (line 61). A call can settle only while it is in
  flight; its continuation then runs and the call is no longer pending.
\<close>

definition remove_nth :: "nat \<Rightarrow> 'a list \<Rightarrow> 'a list" where
  "remove_nth i xs = take i xs @ drop (Suc i) xs"

fun handle :: "'n host \<Rightarrow> 'n event \<Rightarrow> 'n world \<Rightarrow> 'n world" where
  "handle h (Change v) w = w\<lparr>userInput := v\<rparr>"
| "handle h ClickSend w = report (handleSendMessage w)"
| "handle h PressEnter w = report (handleSendMessage w)"
| "handle h ClickMic w = report (handleToggleListening h w)"
| "handle h (RecognitionResult results) w =
     (if SpeechRecognition h then report (onresult h results w) else w)"
| "handle h (RecognitionError code) w =
     (if SpeechRecognition h then report (onerror code w) else w)"
| "handle h RecognitionEnd w =
     (if SpeechRecognition h then report (onend (w\<lparr>recognition_started := False\<rparr>)) else w)"
| "handle h (Settled i outcome) w =
     (if i < length (requests w)
      then report (handleSendMessage_settled h outcome
                     (w\<lparr>requests := remove_nth i (requests w)\<rparr>))
      else w)"

text \<open>
  The browser delivers a user event only through an enabled control: no \<open>change\<close> from
  a disabled input, no click on a disabled or absent button, and no implicit submission
  (Enter in the input) when the input or the form's submit button is disabled. The
  recognition object fires events only inside a session.
\<close>

fun deliverable :: "'n host \<Rightarrow> 'n event \<Rightarrow> 'n world \<Rightarrow> bool" where
  "deliverable h (Change v) w = (\<not> input_disabled w)"
| "deliverable h ClickSend w = (\<not> send_disabled w)"
| "deliverable h PressEnter w = (\<not> input_disabled w \<and> \<not> send_disabled w)"
| "deliverable h ClickMic w = (mic_rendered h \<and> \<not> mic_disabled w)"
| "deliverable h (RecognitionResult results) w = recognition_started w"
| "deliverable h (RecognitionError code) w = recognition_started w"
| "deliverable h RecognitionEnd w = recognition_started w"
| "deliverable h (Settled i outcome) w = True"

definition ui_step :: "'n host \<Rightarrow> 'n event \<Rightarrow> 'n world \<Rightarrow> 'n world" where
  "ui_step h e w = (if deliverable h e w then handle h e w else w)"

text \<open>
  A run of the page processes events one at a time; each render completes before the
  next event is delivered, so a handler sees the current state. \<open>run_handlers\<close> invokes
  the handlers directly, \<open>run\<close> goes through the rendered controls.
\<close>

definition run_handlers :: "'n host \<Rightarrow> 'n event list \<Rightarrow> 'n world \<Rightarrow> 'n world" where
  "run_handlers h es w = foldl (\<lambda>w e. handle h e w) w es"

definition run :: "'n host \<Rightarrow> 'n event list \<Rightarrow> 'n world \<Rightarrow> 'n world" where
  "run h es w = foldl (\<lambda>w e. ui_step h e w) w es"

section \<open>The second variant \<open>ChatComponent\<close>\<close>

text \<open>
  Its four \<open>useState\<close> cells (\<open>error\<close> is \<open>null\<close> or a string), the calls in flight
  and the console.
\<close>

record 'n chat_component =
  question :: js_string
  answer :: "'n js_value"
  chat_isLoading :: bool
  error :: "js_string option"
  chat_requests :: "'n request list"
  chat_console :: "(js_string \<times> console_arg) list"

text \<open>
  \<open>new Error(x)\<close>: the message is \<open>ToString x\<close>, and empty when \<open>x\<close> is \<open>undefined\<close>.
\<close>

definition new_Error :: "'n host \<Rightarrow> 'n js_value \<Rightarrow> js_error" where
  "new_Error h x =
     JsError (js ''Error'') (case x of JUndefined \<Rightarrow> [] | _ \<Rightarrow> ToString h x)"

text \<open>The synchronous part of \<open>handleSubmit\<close> (lines 204 to 219).\<close>

definition handleSubmit :: "'n chat_component stmt" where
  "handleSubmit c =
     (if trim (question c) = [] then (None, c)
      else
        let c1 = c\<lparr>chat_isLoading := True\<rparr>;
            c2 = c1\<lparr>error := None\<rparr>;
            c3 = c2\<lparr>answer := JStr []\<rparr>
        in (None, c3\<lparr>chat_requests := chat_requests c3 @ [chat_request (question c)]\<rparr>))"

text \<open>
  The rest of \<open>handleSubmit\<close>, run when the call has settled. On a response that is not
  \<open>ok\<close> the body is parsed first, and \<open>errorData.detail || `HTTP error! status: ...`\<close>
  becomes the message of the thrown error.
\<close>

definition status_message :: "'n response \<Rightarrow> js_string" where
  "status_message r = js ''HTTP error! status: '' @ decimal (status r)"

definition handleSubmit_try :: "'n host \<Rightarrow> 'n fetch_outcome \<Rightarrow> 'n chat_component stmt" where
  "handleSubmit_try h outcome c =
     (case outcome of
        Inl e \<Rightarrow> (Some e, c)
      | Inr response \<Rightarrow>
          if \<not> ok response then
            (case json response of
               Inl e \<Rightarrow> (Some e, c)
             | Inr errorData \<Rightarrow>
                 (case get h errorData (js ''detail'') of
                    Inl e \<Rightarrow> (Some e, c)
                  | Inr detail \<Rightarrow>
                      (Some (new_Error h
                         (if ToBoolean h detail then detail
                          else JStr (status_message response))), c)))
          else
            (case json response of
               Inl e \<Rightarrow> (Some e, c)
             | Inr data \<Rightarrow>
                 (case get h data (js ''answer'') of
                    Inl e \<Rightarrow> (Some e, c)
                  | Inr a \<Rightarrow> (None, c\<lparr>answer := a\<rparr>))))"

definition handleSubmit_catch :: "js_error \<Rightarrow> 'n chat_component stmt" where
  "handleSubmit_catch err c =
     (let c1 = c\<lparr>error := Some (message err)\<rparr>
      in (None, c1\<lparr>chat_console :=
            chat_console c1 @ [(js ''Failed to fetch chat response:'', ErrorArg err)]\<rparr>))"

definition handleSubmit_finally :: "'n chat_component stmt" where
  "handleSubmit_finally c = (None, c\<lparr>chat_isLoading := False\<rparr>)"

definition handleSubmit_settled ::
    "'n host \<Rightarrow> 'n fetch_outcome \<Rightarrow> 'n chat_component stmt" where
  "handleSubmit_settled h outcome =
     try_catch_finally (handleSubmit_try h outcome) handleSubmit_catch handleSubmit_finally"

text \<open>
  What \<open>{error && <div>Error: {error}</div>}\<close> shows: nothing for \<open>null\<close> and for the
  empty string.
\<close>

definition displayed_error :: "'n chat_component \<Rightarrow> js_string option" where
  "displayed_error c =
     (case error c of
        None \<Rightarrow> None
      | Some m \<Rightarrow> if m = [] then None else Some (js ''Error: '' @ m))"

section \<open>A sample host\<close>

text \<open>
  A host with speech recognition, numbers taken as naturals, and one engine's wording of
  the TypeError. The examples below run on it.
\<close>

definition sample_host :: "nat host" where
  "sample_host =
     \<lparr>SpeechRecognition = True,
      number_is_falsy = (\<lambda>n. n = 0),
      number_to_string = decimal,
      nullish_read_message =
        (\<lambda>p. js ''Cannot read properties of null (reading '' @ p @ js '')'')\<rparr>"

section \<open>Basic facts\<close>

lemmas eval_defs = js_def trim_def is_white_space_def initial_world_def sample_host_def
  handleSendMessage_def handleSendMessage_settled_def handleSendMessage_try_def
  handleSendMessage_catch_def handleSendMessage_finally_def try_catch_finally_def
  setMessages_def fetch_def console_error_def user_turn_def bot_turn_def failure_text_def
  http_error_def ok_def chat_request_def API_URL_def Let_def

text \<open>The trimmed text is empty exactly for the empty and the whitespace-only strings.\<close>

lemma trim_empty_iff: "trim s = [] \<longleftrightarrow> (\<forall>c\<in>set s. is_white_space c)"
proof
  assume t: "trim s = []"
  show "\<forall>c\<in>set s. is_white_space c"
  proof (rule ccontr)
    assume "\<not> (\<forall>c\<in>set s. is_white_space c)"
    then have ne: "dropWhile is_white_space s \<noteq> []" by simp
    then have "\<not> is_white_space (hd (dropWhile is_white_space s))" by (rule hd_dropWhile)
    moreover have "hd (dropWhile is_white_space s) \<in> set (rev (dropWhile is_white_space s))"
      using ne by simp
    ultimately have "dropWhile is_white_space (rev (dropWhile is_white_space s)) \<noteq> []"
      by auto
    with t show False by (simp add: trim_def)
  qed
next
  assume "\<forall>c\<in>set s. is_white_space c"
  then show "trim s = []" by (auto simp: trim_def dest: set_dropWhileD)
qed

subsection \<open>The two halves of \<open>handleSendMessage\<close>\<close>

lemma send_nonempty:
  "trim (userInput w) \<noteq> [] \<Longrightarrow>
   handleSendMessage w =
     (None, w\<lparr>messages := messages w @ [user_turn (trim (userInput w))],
              userInput := [], isLoading := True,
              requests := requests w @ [chat_request (trim (userInput w))]\<rparr>)"
  by (simp add: handleSendMessage_def Let_def setMessages_def fetch_def)

lemma send_empty: "trim (userInput w) = [] \<Longrightarrow> handleSendMessage w = (None, w)"
  by (simp add: handleSendMessage_def)

text \<open>
  The handler itself never looks at \<open>isLoading\<close>: called on a loading state with text
  in the input, it issues a further call. What keeps a second call away is the render
  surface, which disables the controls.
\<close>

lemma send_ignores_isLoading:
  "trim (userInput w) \<noteq> [] \<Longrightarrow> isLoading w \<Longrightarrow>
   requests (snd (handleSendMessage w)) = requests w @ [chat_request (trim (userInput w))]"
  by (simp add: send_nonempty)

lemma settled_cases:
  "handleSendMessage_settled h outcome w =
     (case handleSendMessage_try h outcome w of
        (None, w1) \<Rightarrow> (None, w1\<lparr>isLoading := False\<rparr>)
      | (Some e, w1) \<Rightarrow>
          (None, (setMessages (\<lambda>prev. prev @ [bot_turn (JStr failure_text)])
                   (console_error (js ''Error sending message:'') (ErrorArg e) w1))
                 \<lparr>isLoading := False\<rparr>))"
  by (simp add: handleSendMessage_settled_def try_catch_finally_def handleSendMessage_catch_def
      handleSendMessage_finally_def Let_def split: prod.splits option.splits)

lemma try_cases:
  "(\<exists>e. handleSendMessage_try h outcome w = (Some e, w)) \<or>
   (\<exists>v. handleSendMessage_try h outcome w =
          (None, setMessages (\<lambda>prev. prev @ [bot_turn v]) w))"
  by (auto simp: handleSendMessage_try_def split: sum.splits)

lemma try_failure:
  "(case outcome of Inl e \<Rightarrow> True | Inr r \<Rightarrow> \<not> ok r) \<Longrightarrow>
   \<exists>e. handleSendMessage_try h outcome w = (Some e, w)"
  by (auto simp: handleSendMessage_try_def split: sum.splits)

lemma settled_messages:
  "\<exists>v. messages (snd (handleSendMessage_settled h outcome w)) = messages w @ [bot_turn v]"
  using try_cases [of h outcome w]
  by (auto simp: settled_cases setMessages_def console_error_def)

lemma settled_normal: "fst (handleSendMessage_settled h outcome w) = None"
  using try_cases [of h outcome w] by (auto simp: settled_cases)

lemma settled_not_loading: "\<not> isLoading (snd (handleSendMessage_settled h outcome w))"
  using try_cases [of h outcome w]
  by (auto simp: settled_cases setMessages_def console_error_def)

lemma settled_requests:
  "requests (snd (handleSendMessage_settled h outcome w)) = requests w"
  using try_cases [of h outcome w]
  by (auto simp: settled_cases setMessages_def console_error_def)

lemma settled_failure:
  "(case outcome of Inl e \<Rightarrow> True | Inr r \<Rightarrow> \<not> ok r) \<Longrightarrow>
   messages (snd (handleSendMessage_settled h outcome w)) =
     messages w @ [bot_turn (JStr failure_text)]"
  using try_failure [of outcome h w]
  by (auto simp: settled_cases setMessages_def console_error_def)

subsection \<open>What the other handlers leave alone\<close>

lemma report_fields [simp]:
  "messages (report p) = messages (snd p)"
  "requests (report p) = requests (snd p)"
  "isLoading (report p) = isLoading (snd p)"
  by (cases p; cases "fst p"; simp)+

lemma toggle_fields:
  "messages (snd (handleToggleListening h w)) = messages w"
  "requests (snd (handleToggleListening h w)) = requests w"
  "isLoading (snd (handleToggleListening h w)) = isLoading w"
  by (simp_all add: handleToggleListening_def recognition_start_def recognition_stop_def Let_def)

lemma onresult_fields:
  "messages (snd (onresult h rs w)) = messages w"
  "requests (snd (onresult h rs w)) = requests w"
  "isLoading (snd (onresult h rs w)) = isLoading w"
  by (simp_all add: onresult_def split: list.splits)

lemma onerror_fields:
  "messages (snd (onerror code w)) = messages w"
  "requests (snd (onerror code w)) = requests w"
  "isLoading (snd (onerror code w)) = isLoading w"
  by (simp_all add: onerror_def console_error_def)

lemma onend_fields:
  "messages (snd (onend w)) = messages w"
  "requests (snd (onend w)) = requests w"
  "isLoading (snd (onend w)) = isLoading w"
  by (simp_all add: onend_def)

lemmas speech_fields = toggle_fields onresult_fields onerror_fields onend_fields

section \<open>One submission\<close>

text \<open>
  Claim C1. When the trimmed input is not empty, \<open>handleSendMessage\<close> at once appends
  exactly one user Turn carrying the trimmed text, clears the input, sets the loading
  flag and issues one call. When the call settles, with any outcome and on whatever
  state the page then has, exactly one Turn is appended and its sender is \<open>bot\<close>. Run
  one after the other, the conversation grows by the user Turn followed by the bot Turn.
\<close>

theorem submit_appends_user_then_bot:
  assumes "trim (userInput w) \<noteq> []"
  shows "handleSendMessage w =
           (None, w\<lparr>messages := messages w @
                       [\<lparr>turn_text = JStr (trim (userInput w)), sender = js ''user''\<rparr>],
                    userInput := [], isLoading := True,
                    requests := requests w @ [chat_request (trim (userInput w))]\<rparr>)
         \<and> (\<exists>v. messages (snd (handleSendMessage_settled h outcome w')) =
                  messages w' @ [\<lparr>turn_text = v, sender = js ''bot''\<rparr>])
         \<and> (\<exists>v. messages (snd (handleSendMessage_settled h outcome
                                 (snd (handleSendMessage w)))) =
                  messages w @
                    [\<lparr>turn_text = JStr (trim (userInput w)), sender = js ''user''\<rparr>,
                     \<lparr>turn_text = v, sender = js ''bot''\<rparr>])"
proof -
  let ?w1 = "snd (handleSendMessage w)"
  let ?u = "\<lparr>turn_text = JStr (trim (userInput w)), sender = js ''user''\<rparr>"
  have a: "handleSendMessage w =
           (None, w\<lparr>messages := messages w @ [?u],
                    userInput := [], isLoading := True,
                    requests := requests w @ [chat_request (trim (userInput w))]\<rparr>)"
    using send_nonempty [OF assms] by (simp add: user_turn_def)
  have b: "\<exists>v. messages (snd (handleSendMessage_settled h outcome x)) =
                  messages x @ [\<lparr>turn_text = v, sender = js ''bot''\<rparr>]" for x :: "'a world"
    using settled_messages [of h outcome x] by (simp add: bot_turn_def)
  have "messages ?w1 = messages w @ [?u]"
    by (simp add: a)
  with b [of ?w1]
  have c: "\<exists>v. messages (snd (handleSendMessage_settled h outcome ?w1)) =
                  messages w @ [?u, \<lparr>turn_text = v, sender = js ''bot''\<rparr>]"
    by simp
  from a b c show ?thesis by blast
qed

theorem submit_appends_user_then_bot_witness:
  "trim (userInput (initial_world\<lparr>userInput := js ''  hi ''\<rparr> :: nat world)) \<noteq> []
   \<and> messages (snd (handleSendMessage (initial_world\<lparr>userInput := js ''  hi ''\<rparr> :: nat world))) =
       [\<lparr>turn_text = JStr (js ''hi''), sender = js ''user''\<rparr>]
   \<and> messages (snd (handleSendMessage_settled sample_host
         (Inl (JsError (js ''TypeError'') (js ''Failed to fetch'')))
         (snd (handleSendMessage (initial_world\<lparr>userInput := js ''  hi ''\<rparr>))))) =
       [\<lparr>turn_text = JStr (js ''hi''), sender = js ''user''\<rparr>,
        \<lparr>turn_text = JStr (js ''Sorry, something went wrong. Please try again.''),
         sender = js ''bot''\<rparr>]"
proof -
  have h: "trim (userInput (initial_world\<lparr>userInput := js ''  hi ''\<rparr> :: nat world)) \<noteq> []"
    by (simp add: eval_defs)
  from submit_appends_user_then_bot [OF h, of sample_host
      "Inl (JsError (js ''TypeError'') (js ''Failed to fetch''))" "initial_world"]
  show ?thesis using h by (simp add: eval_defs)
qed

section \<open>One call at a time\<close>

lemma ui_step_invariant:
  assumes "length (requests w) \<le> 1" and "isLoading w \<longleftrightarrow> requests w \<noteq> []"
  shows "length (requests (ui_step h e w)) \<le> 1 \<and>
         (isLoading (ui_step h e w) \<longleftrightarrow> requests (ui_step h e w) \<noteq> [])"
proof (cases e)
  case (Settled i outcome)
  show ?thesis
  proof (cases "i < length (requests w)")
    case True
    with assms have "remove_nth i (requests w) = []"
      by (cases "requests w") (auto simp: remove_nth_def)
    with True Settled show ?thesis
      by (simp add: ui_step_def settled_requests settled_not_loading)
  next
    case False
    with Settled assms show ?thesis by (simp add: ui_step_def)
  qed
next
  case ClickSend
  with assms show ?thesis
    by (auto simp: ui_step_def send_disabled_def send_nonempty)
next
  case PressEnter
  with assms show ?thesis
    by (auto simp: ui_step_def send_disabled_def input_disabled_def send_nonempty)
qed (use assms in \<open>auto simp: ui_step_def speech_fields\<close>)

lemma run_Cons: "run h (e # es) w = run h es (ui_step h e w)"
  by (simp add: run_def)

lemma run_invariant:
  "length (requests w) \<le> 1 \<Longrightarrow> (isLoading w \<longleftrightarrow> requests w \<noteq> []) \<Longrightarrow>
   length (requests (run h es w)) \<le> 1 \<and>
   (isLoading (run h es w) \<longleftrightarrow> requests (run h es w) \<noteq> [])"
proof (induction es arbitrary: w)
  case Nil
  then show ?case by (simp add: run_def)
next
  case (Cons e es)
  from ui_step_invariant [OF Cons.prems, of h e] show ?case
    unfolding run_Cons by (intro Cons.IH) simp_all
qed

text \<open>
  Claim C2. While the loading flag is set, an attempt to submit through the form, by
  the submit button or by Enter in the input, changes nothing: no Turn is appended and
  no call is issued. Hence on every run of the page at most one call is in flight, and
  the loading flag is set exactly while one is.
\<close>

theorem submit_rejected_while_loading:
  "(isLoading w \<longrightarrow> ui_step h ClickSend w = w \<and> ui_step h PressEnter w = w)
   \<and> length (requests (run h es initial_world)) \<le> 1
   \<and> (isLoading (run h es initial_world) \<longleftrightarrow> requests (run h es initial_world) \<noteq> [])"
proof -
  let ?r = "run h es (initial_world :: 'a world)"
  have "isLoading w \<longrightarrow> ui_step h ClickSend w = w \<and> ui_step h PressEnter w = w"
    by (simp add: ui_step_def send_disabled_def input_disabled_def)
  moreover have "length (requests ?r) \<le> 1 \<and> (isLoading ?r \<longleftrightarrow> requests ?r \<noteq> [])"
    by (rule run_invariant) (simp_all add: initial_world_def)
  ultimately show ?thesis by blast
qed

theorem submit_rejected_while_loading_witness:
  "isLoading (initial_world\<lparr>userInput := js ''again'', isLoading := True,
       requests := [chat_request (js ''hi'')]\<rparr> :: nat world)
   \<and> ui_step sample_host ClickSend
        (initial_world\<lparr>userInput := js ''again'', isLoading := True,
           requests := [chat_request (js ''hi'')]\<rparr>) =
       initial_world\<lparr>userInput := js ''again'', isLoading := True,
           requests := [chat_request (js ''hi'')]\<rparr>
   \<and> requests (run sample_host
        [Change (js ''a''), ClickSend, Change (js ''b''), ClickSend, PressEnter]
        initial_world) = [chat_request (js ''a'')]"
  using submit_rejected_while_loading
    [of "initial_world\<lparr>userInput := js ''again'', isLoading := True,
           requests := [chat_request (js ''hi'')]\<rparr>" sample_host
        "[Change (js ''a''), ClickSend, Change (js ''b''), ClickSend, PressEnter]"]
  by (simp add: eval_defs run_def ui_step_def send_disabled_def input_disabled_def)

section \<open>Blank input\<close>

text \<open>
  Claim C3. Submitting an input that is empty or consists of whitespace only is a
  no-op: the handler returns at once with the state as it was, so no Turn is appended
  and no call is issued. The same holds of \<open>handleSubmit\<close> in the second variant.
\<close>

theorem blank_submit_is_noop:
  "((\<forall>x\<in>set (userInput w). is_white_space x) \<longrightarrow> handleSendMessage w = (None, w))
   \<and> ((\<forall>x\<in>set (question c). is_white_space x) \<longrightarrow> handleSubmit c = (None, c))"
  by (simp add: trim_empty_iff [symmetric] handleSendMessage_def handleSubmit_def)

theorem blank_submit_is_noop_witness:
  "list_all is_white_space (userInput (initial_world\<lparr>userInput := js ''   ''\<rparr> :: nat world))
   \<and> handleSendMessage (initial_world\<lparr>userInput := js ''   ''\<rparr> :: nat world) =
       (None, initial_world\<lparr>userInput := js ''   ''\<rparr>)
   \<and> list_all is_white_space
        (question (\<lparr>question = [0x20, 0x09], answer = JStr [], chat_isLoading = False,
          error = None, chat_requests = [], chat_console = []\<rparr> :: nat chat_component))
   \<and> handleSubmit (\<lparr>question = [0x20, 0x09], answer = JStr [], chat_isLoading = False,
          error = None, chat_requests = [], chat_console = []\<rparr> :: nat chat_component) =
       (None, \<lparr>question = [0x20, 0x09], answer = JStr [], chat_isLoading = False,
          error = None, chat_requests = [], chat_console = []\<rparr>)"
  using blank_submit_is_noop [of "initial_world\<lparr>userInput := js ''   ''\<rparr>"
      "\<lparr>question = [0x20, 0x09], answer = JStr [], chat_isLoading = False,
          error = None, chat_requests = [], chat_console = []\<rparr>"]
  by (simp add: eval_defs)

section \<open>Failures\<close>

text \<open>
  Claim C4. No exception leaves either half of \<open>handleSendMessage\<close>, and the loading
  flag is off after settlement, whatever the outcome. When the call fails in transport
  or the response is not 2xx, exactly one bot Turn is appended and its text is the fixed
  failure string.
\<close>

theorem failure_yields_generic_turn:
  "fst (handleSendMessage w) = None
   \<and> fst (handleSendMessage_settled h outcome w) = None
   \<and> \<not> isLoading (snd (handleSendMessage_settled h outcome w))
   \<and> ((case outcome of Inl e \<Rightarrow> True | Inr r \<Rightarrow> \<not> ok r) \<longrightarrow>
        messages (snd (handleSendMessage_settled h outcome w)) =
          messages w @
            [\<lparr>turn_text = JStr (js ''Sorry, something went wrong. Please try again.''),
              sender = js ''bot''\<rparr>])"
proof -
  have "fst (handleSendMessage w) = None"
    by (simp add: handleSendMessage_def Let_def)
  moreover have "(case outcome of Inl e \<Rightarrow> True | Inr r \<Rightarrow> \<not> ok r) \<longrightarrow>
        messages (snd (handleSendMessage_settled h outcome w)) =
          messages w @
            [\<lparr>turn_text = JStr (js ''Sorry, something went wrong. Please try again.''),
              sender = js ''bot''\<rparr>]"
    using settled_failure [of outcome h w] by (simp add: bot_turn_def failure_text_def)
  ultimately show ?thesis
    using settled_normal [of h outcome w] settled_not_loading [of h outcome w] by blast
qed

theorem failure_yields_generic_turn_witness:
  "\<not> ok (Response 503 (Inl (JsError (js ''SyntaxError'') (js ''Unexpected token'')))
          :: nat response)
   \<and> handleSendMessage_settled sample_host
        (Inr (Response 503 (Inl (JsError (js ''SyntaxError'') (js ''Unexpected token'')))))
        (initial_world\<lparr>isLoading := True\<rparr>) =
       (None, initial_world
          \<lparr>messages :=
             [\<lparr>turn_text = JStr (js ''Sorry, something went wrong. Please try again.''),
               sender = js ''bot''\<rparr>],
           console := [(js ''Error sending message:'',
                        ErrorArg (JsError (js ''Error'') (js ''HTTP error! Status: 503'')))]\<rparr>)"
  using failure_yields_generic_turn [of "initial_world\<lparr>isLoading := True\<rparr>" sample_host
      "Inr (Response 503 (Inl (JsError (js ''SyntaxError'') (js ''Unexpected token''))))"]
  by (simp add: eval_defs decimal.simps)

section \<open>Answers\<close>

text \<open>
  Claim C5. On a 2xx response whose JSON body is an object with a string \<open>answer\<close>,
  the bot Turn appended carries that string unchanged. The witness is the exchange of
  the specification: the question about the capital of France.
\<close>

theorem answer_shown_verbatim:
  assumes "ok r" and "json r = Inr (JObj ps)" and "map_of ps (js ''answer'') = Some (JStr a)"
  shows "handleSendMessage_settled h (Inr r) w =
           (None, w\<lparr>messages := messages w @ [\<lparr>turn_text = JStr a, sender = js ''bot''\<rparr>],
                    isLoading := False\<rparr>)"
  using assms
  by (simp add: settled_cases handleSendMessage_try_def setMessages_def bot_turn_def)

theorem answer_shown_verbatim_witness:
  "ok (Response 200 (Inr (JObj [(js ''answer'', JStr (js ''Paris is the capital of France.''))]))
        :: nat response)
   \<and> messages (snd (handleSendMessage_settled sample_host
        (Inr (Response 200
           (Inr (JObj [(js ''answer'', JStr (js ''Paris is the capital of France.''))]))))
        (snd (handleSendMessage
           (initial_world\<lparr>userInput := js ''What is the capital of France?''\<rparr>))))) =
       [\<lparr>turn_text = JStr (js ''What is the capital of France?''), sender = js ''user''\<rparr>,
        \<lparr>turn_text = JStr (js ''Paris is the capital of France.''), sender = js ''bot''\<rparr>]"
proof -
  let ?r = "Response 200
      (Inr (JObj [(js ''answer'', JStr (js ''Paris is the capital of France.''))])) :: nat response"
  have 1: "ok ?r" by (simp add: ok_def)
  have 2: "json ?r = Inr (JObj [(js ''answer'', JStr (js ''Paris is the capital of France.''))])"
    by simp
  have 3: "map_of [(js ''answer'', JStr (js ''Paris is the capital of France.'') :: nat js_value)]
             (js ''answer'') = Some (JStr (js ''Paris is the capital of France.''))"
    by simp
  from answer_shown_verbatim [OF 1 2 3, of sample_host
      "snd (handleSendMessage (initial_world\<lparr>userInput := js ''What is the capital of France?''\<rparr>))"]
  show ?thesis using 1 by (simp add: eval_defs)
qed

section \<open>The conversation only grows\<close>

lemma handle_messages:
  "\<exists>ts. messages (handle h e w) = messages w @ ts \<and> length ts \<le> 1 \<and>
        (\<forall>t\<in>set ts. sender t = js ''user'' \<or> sender t = js ''bot'')"
proof (cases e)
  case (Settled i outcome)
  show ?thesis
  proof (cases "i < length (requests w)")
    case True
    obtain v where "messages (snd (handleSendMessage_settled h outcome
        (w\<lparr>requests := remove_nth i (requests w)\<rparr>))) = messages w @ [bot_turn v]"
      using settled_messages [of h outcome "w\<lparr>requests := remove_nth i (requests w)\<rparr>"] by auto
    with True Settled show ?thesis by (simp add: bot_turn_def)
  next
    case False
    with Settled show ?thesis by simp
  qed
next
  case ClickSend
  then show ?thesis
    by (cases "trim (userInput w) = []") (simp_all add: send_empty send_nonempty user_turn_def)
next
  case PressEnter
  then show ?thesis
    by (cases "trim (userInput w) = []") (simp_all add: send_empty send_nonempty user_turn_def)
qed (simp_all add: speech_fields)

lemma run_handlers_Cons: "run_handlers h (e # es) w = run_handlers h es (handle h e w)"
  by (simp add: run_handlers_def)

text \<open>
  Claim C6. Whatever handlers run, in whatever order and from whatever state, the
  conversation afterwards is the conversation before with Turns added at its end: no
  existing Turn is changed, removed or moved. At most one Turn is added per handler
  run, and every added Turn has sender \<open>user\<close> or \<open>bot\<close>. From the initial, empty
  conversation this covers every Turn.
\<close>

theorem conversation_append_only:
  "\<exists>ts. messages (run_handlers h es w) = messages w @ ts \<and> length ts \<le> length es \<and>
        (\<forall>t\<in>set ts. sender t = js ''user'' \<or> sender t = js ''bot'')"
proof (induction es arbitrary: w)
  case Nil
  show ?case by (simp add: run_handlers_def)
next
  case (Cons e es)
  obtain ts where ts: "messages (handle h e w) = messages w @ ts" "length ts \<le> 1"
    "\<forall>t\<in>set ts. sender t = js ''user'' \<or> sender t = js ''bot''"
    using handle_messages [of h e w] by blast
  obtain us where us: "messages (run_handlers h es (handle h e w)) = messages (handle h e w) @ us"
    "length us \<le> length es" "\<forall>t\<in>set us. sender t = js ''user'' \<or> sender t = js ''bot''"
    using Cons.IH [of "handle h e w"] by blast
  show ?case
  proof (intro exI conjI)
    show "messages (run_handlers h (e # es) w) = messages w @ (ts @ us)"
      by (simp add: run_handlers_Cons ts us)
    show "length (ts @ us) \<le> length (e # es)" using ts us by simp
    show "\<forall>t\<in>set (ts @ us). sender t = js ''user'' \<or> sender t = js ''bot''"
      using ts us by auto
  qed
qed

theorem conversation_append_only_witness:
  "messages (run_handlers sample_host
      [Change (js ''hi''), ClickSend, ClickMic, Change (js ''yo''), PressEnter,
       Settled 1 (Inr (Response 200 (Inr (JObj [(js ''answer'', JStr (js ''hello''))])))),
       Settled 0 (Inl (JsError (js ''TypeError'') (js ''Failed to fetch'')))]
      initial_world) =
     [\<lparr>turn_text = JStr (js ''hi''), sender = js ''user''\<rparr>,
      \<lparr>turn_text = JStr (js ''yo''), sender = js ''user''\<rparr>,
      \<lparr>turn_text = JStr (js ''hello''), sender = js ''bot''\<rparr>,
      \<lparr>turn_text = JStr (js ''Sorry, something went wrong. Please try again.''),
       sender = js ''bot''\<rparr>]
   \<and> map sender (messages (run_handlers sample_host
      [Change (js ''hi''), ClickSend, ClickMic, Change (js ''yo''), PressEnter,
       Settled 1 (Inr (Response 200 (Inr (JObj [(js ''answer'', JStr (js ''hello''))])))),
       Settled 0 (Inl (JsError (js ''TypeError'') (js ''Failed to fetch'')))]
      initial_world)) = [js ''user'', js ''user'', js ''bot'', js ''bot'']"
  using conversation_append_only [of sample_host
      "[Change (js ''hi''), ClickSend, ClickMic, Change (js ''yo''), PressEnter,
       Settled 1 (Inr (Response 200 (Inr (JObj [(js ''answer'', JStr (js ''hello''))])))),
       Settled 0 (Inl (JsError (js ''TypeError'') (js ''Failed to fetch'')))]"
      initial_world]
  by (simp add: eval_defs run_handlers_def remove_nth_def handleToggleListening_def
      recognition_start_def recognition_stop_def)

section \<open>Speech\<close>

text \<open>
  Claim C7. When the host has no speech recognition, \<open>handleToggleListening\<close> shows the
  notice and does nothing else: it completes normally and every other part of the state,
  the conversation included, is as before.
\<close>

theorem toggle_unsupported_only_alerts:
  assumes "\<not> SpeechRecognition h"
  shows "handleToggleListening h w =
           (None, w\<lparr>alerts := alerts w @
                      [js ''Sorry, your browser doesn't support voice recognition.'']\<rparr>)"
  using assms by (simp add: handleToggleListening_def unsupported_notice_def)

theorem toggle_unsupported_only_alerts_witness:
  "\<not> SpeechRecognition (sample_host\<lparr>SpeechRecognition := False\<rparr>)
   \<and> handleToggleListening (sample_host\<lparr>SpeechRecognition := False\<rparr>)
        (initial_world\<lparr>userInput := js ''hi''\<rparr>) =
       (None, initial_world
          \<lparr>userInput := js ''hi'',
           alerts := [js ''Sorry, your browser doesn't support voice recognition.'']\<rparr>)"
proof -
  have h: "\<not> SpeechRecognition (sample_host\<lparr>SpeechRecognition := False\<rparr>)" by simp
  from toggle_unsupported_only_alerts [OF h, of "initial_world\<lparr>userInput := js ''hi''\<rparr>"]
  show ?thesis by (simp add: initial_world_def)
qed

text \<open>
  Claim C8. When the recognition object delivers a result, the input text becomes the
  transcript of the first alternative of the first result and the listening flag is
  cleared; nothing else changes.
\<close>

theorem onresult_sets_input:
  "onresult h ((transcript # alternatives) # others) w =
     (None, w\<lparr>userInput := transcript, isListening := False\<rparr>)
   \<and> (SpeechRecognition h \<longrightarrow>
        handle h (RecognitionResult ((transcript # alternatives) # others)) w =
          w\<lparr>userInput := transcript, isListening := False\<rparr>)"
  by (simp add: onresult_def)

theorem onresult_sets_input_witness:
  "SpeechRecognition sample_host
   \<and> handle sample_host (RecognitionResult [[js ''what is rag'']])
        (initial_world\<lparr>userInput := js ''old'', isListening := True,
           recognition_started := True\<rparr>) =
       initial_world\<lparr>userInput := js ''what is rag'', isListening := False,
           recognition_started := True\<rparr>"
  using onresult_sets_input [of sample_host "js ''what is rag''" "[]" "[]"
      "initial_world\<lparr>userInput := js ''old'', isListening := True, recognition_started := True\<rparr>"]
  by (simp add: sample_host_def initial_world_def)

section \<open>What the two variants show of a failed response\<close>

lemmas chat_eval_defs = handleSubmit_settled_def handleSubmit_try_def handleSubmit_catch_def
  handleSubmit_finally_def try_catch_finally_def new_Error_def displayed_error_def
  status_message_def ok_def js_def Let_def

lemma submit_settled_cases:
  "handleSubmit_settled h outcome c =
     (case handleSubmit_try h outcome c of
        (None, c1) \<Rightarrow> (None, c1\<lparr>chat_isLoading := False\<rparr>)
      | (Some e, c1) \<Rightarrow>
          (None, c1\<lparr>error := Some (message e),
                    chat_console := chat_console c1 @
                      [(js ''Failed to fetch chat response:'', ErrorArg e)],
                    chat_isLoading := False\<rparr>))"
  by (simp add: handleSubmit_settled_def try_catch_finally_def handleSubmit_catch_def
      handleSubmit_finally_def Let_def split: prod.splits option.splits)

text \<open>
  Claim C9 says that on a response that is not 2xx the second variant shows the
  server's \<open>detail\<close> string when the body has one, and an HTTP-status message
  otherwise. Two responses with status 500 show otherwise. When the body is not JSON,
  \<open>response.json()\<close> rejects before the status message is built, and what is shown is
  the message of that rejection. When \<open>detail\<close> is the empty string, \<open>||\<close> takes it
  for absent and the status message is shown in its place.
\<close>

theorem error_display_counterexample:
  "\<not> ok (Response 500 (Inl (JsError (js ''SyntaxError'') (js ''Unexpected token I'')))
          :: nat response)
   \<and> displayed_error (snd (handleSubmit_settled sample_host
        (Inr (Response 500 (Inl (JsError (js ''SyntaxError'') (js ''Unexpected token I'')))))
        \<lparr>question = js ''hi'', answer = JStr [], chat_isLoading = True, error = None,
         chat_requests = [], chat_console = []\<rparr>)) =
       Some (js ''Error: Unexpected token I'')
   \<and> \<not> ok (Response 500 (Inr (JObj [(js ''detail'', JStr [])])) :: nat response)
   \<and> displayed_error (snd (handleSubmit_settled sample_host
        (Inr (Response 500 (Inr (JObj [(js ''detail'', JStr [])]))))
        \<lparr>question = js ''hi'', answer = JStr [], chat_isLoading = True, error = None,
         chat_requests = [], chat_console = []\<rparr>)) =
       Some (js ''Error: HTTP error! status: 500'')"
  by (simp add: chat_eval_defs decimal.simps)

text \<open>
  Claim C9, amended. On a response that is not 2xx, the chat view appends one bot Turn
  with the fixed failure string, whatever the body holds. The second variant shows the
  \<open>detail\<close> of a JSON object body when it is a non-empty string; when the body is a
  JSON value other than \<open>null\<close> whose \<open>detail\<close> is absent or falsy, it shows the
  HTTP-status message.
\<close>

theorem error_display:
  assumes "\<not> ok r"
  shows "messages (snd (handleSendMessage_settled h (Inr r) w)) =
           messages w @
             [\<lparr>turn_text = JStr (js ''Sorry, something went wrong. Please try again.''),
               sender = js ''bot''\<rparr>]
         \<and> (\<forall>ps d. json r = Inr (JObj ps) \<and> map_of ps (js ''detail'') = Some (JStr d) \<and> d \<noteq> []
              \<longrightarrow> displayed_error (snd (handleSubmit_settled h (Inr r) c)) =
                    Some (js ''Error: '' @ d))
         \<and> (\<forall>v d. json r = Inr v \<and> get h v (js ''detail'') = Inr d \<and> \<not> ToBoolean h d
              \<longrightarrow> displayed_error (snd (handleSubmit_settled h (Inr r) c)) =
                    Some (js ''Error: HTTP error! status: '' @ decimal (status r)))"
proof (intro conjI allI impI)
  show "messages (snd (handleSendMessage_settled h (Inr r) w)) =
           messages w @
             [\<lparr>turn_text = JStr (js ''Sorry, something went wrong. Please try again.''),
               sender = js ''bot''\<rparr>]"
    using settled_failure [of "Inr r" h w] assms by (simp add: bot_turn_def failure_text_def)
next
  fix ps d
  assume "json r = Inr (JObj ps) \<and> map_of ps (js ''detail'') = Some (JStr d) \<and> d \<noteq> []"
  with assms
  show "displayed_error (snd (handleSubmit_settled h (Inr r) c)) = Some (js ''Error: '' @ d)"
    by (simp add: submit_settled_cases handleSubmit_try_def new_Error_def displayed_error_def)
next
  fix v d
  assume a: "json r = Inr v \<and> get h v (js ''detail'') = Inr d \<and> \<not> ToBoolean h d"
  have "js ''HTTP error! status: '' @ decimal (status r) \<noteq> []" by (simp add: js_def)
  with a assms show "displayed_error (snd (handleSubmit_settled h (Inr r) c)) =
                Some (js ''Error: HTTP error! status: '' @ decimal (status r))"
    by (simp add: submit_settled_cases handleSubmit_try_def new_Error_def displayed_error_def
        status_message_def js_def)
qed

theorem error_display_witness:
  "\<not> ok (Response 422 (Inr (JObj [(js ''detail'', JStr (js ''Question is too long''))]))
          :: nat response)
   \<and> messages (snd (handleSendMessage_settled sample_host
        (Inr (Response 422 (Inr (JObj [(js ''detail'', JStr (js ''Question is too long''))]))))
        initial_world)) =
       [\<lparr>turn_text = JStr (js ''Sorry, something went wrong. Please try again.''),
         sender = js ''bot''\<rparr>]
   \<and> displayed_error (snd (handleSubmit_settled sample_host
        (Inr (Response 422 (Inr (JObj [(js ''detail'', JStr (js ''Question is too long''))]))))
        \<lparr>question = js ''hi'', answer = JStr [], chat_isLoading = True, error = None,
         chat_requests = [], chat_console = []\<rparr>)) =
       Some (js ''Error: Question is too long'')
   \<and> \<not> ok (Response 404 (Inr (JObj [])) :: nat response)
   \<and> displayed_error (snd (handleSubmit_settled sample_host
        (Inr (Response 404 (Inr (JObj []))))
        \<lparr>question = js ''hi'', answer = JStr [], chat_isLoading = True, error = None,
         chat_requests = [], chat_console = []\<rparr>)) =
       Some (js ''Error: HTTP error! status: 404'')"
proof -
  let ?r = "Response 422 (Inr (JObj [(js ''detail'', JStr (js ''Question is too long''))]))
              :: nat response"
  let ?s = "Response 404 (Inr (JObj [])) :: nat response"
  let ?c = "\<lparr>question = js ''hi'', answer = JStr [], chat_isLoading = True, error = None,
         chat_requests = [], chat_console = []\<rparr> :: nat chat_component"
  have r: "\<not> ok ?r" and s: "\<not> ok ?s" by (simp_all add: ok_def)
  from error_display [OF r, of sample_host initial_world ?c]
    error_display [OF s, of sample_host initial_world ?c]
  show ?thesis using r s by (simp add: decimal.simps js_def initial_world_def)
qed

section \<open>A 2xx response without an \<open>answer\<close>\<close>

text \<open>
  Claim C10 says that every 2xx response whose JSON body lacks \<open>answer\<close> gives a bot
  Turn with text \<open>undefined\<close> and never the failure branch. The JSON body \<open>null\<close>
  lacks \<open>answer\<close>, but reading \<open>botResponse.answer\<close> on it throws a TypeError: the
  \<open>catch\<close> block runs, the error is logged and the bot Turn carries the failure string.
\<close>

theorem null_body_takes_failure_branch:
  "ok (Response 200 (Inr JNull) :: nat response)
   \<and> handleSendMessage_settled sample_host (Inr (Response 200 (Inr JNull)))
        (initial_world\<lparr>isLoading := True\<rparr>) =
       (None, initial_world
          \<lparr>messages :=
             [\<lparr>turn_text = JStr (js ''Sorry, something went wrong. Please try again.''),
               sender = js ''bot''\<rparr>],
           console := [(js ''Error sending message:'',
                        ErrorArg (JsError (js ''TypeError'')
                          (js ''Cannot read properties of null (reading answer)'')))]\<rparr>)
   \<and> turn_text (last (messages (snd (handleSendMessage_settled sample_host
        (Inr (Response 200 (Inr JNull))) (initial_world\<lparr>isLoading := True\<rparr>))))) \<noteq> JUndefined"
  by (simp add: eval_defs TypeError_def)

text \<open>
  Claim C10, amended. On a 2xx response whose JSON body is any value other than
  \<open>null\<close> and has no \<open>answer\<close> (an object without that property, or an array, a
  string, a number or a boolean), the chat view appends a bot Turn whose text is
  \<open>undefined\<close>, logs nothing and completes normally; the shape of the body is not
  checked. On the body \<open>null\<close> the failure branch is taken and the bot Turn carries
  the failure string.
\<close>

theorem missing_answer_gives_undefined:
  assumes "ok r" and "json r = Inr v"
  shows "(v \<noteq> JNull \<and> v \<noteq> JUndefined \<and>
          (\<forall>ps. v = JObj ps \<longrightarrow> map_of ps (js ''answer'') = None) \<longrightarrow>
            handleSendMessage_settled h (Inr r) w =
              (None, w\<lparr>messages := messages w @
                          [\<lparr>turn_text = JUndefined, sender = js ''bot''\<rparr>],
                       isLoading := False\<rparr>))
         \<and> (v = JNull \<longrightarrow>
              messages (snd (handleSendMessage_settled h (Inr r) w)) =
                messages w @
                  [\<lparr>turn_text = JStr (js ''Sorry, something went wrong. Please try again.''),
                    sender = js ''bot''\<rparr>])"
  using assms
  by (cases v)
     (simp_all add: settled_cases handleSendMessage_try_def setMessages_def bot_turn_def
        console_error_def failure_text_def)

theorem missing_answer_gives_undefined_witness:
  "ok (Response 200 (Inr (JObj [(js ''reply'', JStr (js ''Paris''))])) :: nat response)
   \<and> handleSendMessage_settled sample_host
        (Inr (Response 200 (Inr (JObj [(js ''reply'', JStr (js ''Paris''))]))))
        (initial_world\<lparr>isLoading := True\<rparr>) =
       (None, initial_world\<lparr>messages := [\<lparr>turn_text = JUndefined, sender = js ''bot''\<rparr>]\<rparr>)"
proof -
  let ?v = "JObj [(js ''reply'', JStr (js ''Paris''))] :: nat js_value"
  have 1: "ok (Response 200 (Inr ?v))" by (simp add: ok_def)
  have 2: "json (Response 200 (Inr ?v)) = Inr ?v" by simp
  from missing_answer_gives_undefined [OF 1 2, of sample_host "initial_world\<lparr>isLoading := True\<rparr>"]
  show ?thesis using 1 by (simp add: js_def initial_world_def)
qed

end
